theory Spec2Isabelle
  imports Complex_Main "HOL-Library.AList"
begin

section \<open>Numbers and JSON values\<close>

text \<open>
  A JavaScript number is an IEEE double.  The program only tests numbers with
  \<^verbatim>\<open>typeof\<close> and compares \<^verbatim>\<open>status < 500\<close>, so a number is modelled as a
  rational or one of the three special values; every comparison with \<^verbatim>\<open>NaN\<close> is false.
\<close>

datatype jsnum = Finite rat | PosInfinity | NegInfinity | NaN

fun num_less :: "jsnum \<Rightarrow> jsnum \<Rightarrow> bool" where
  "num_less NaN _ = False"
| "num_less _ NaN = False"
| "num_less (Finite a) (Finite b) = (a < b)"
| "num_less (Finite _) PosInfinity = True"
| "num_less (Finite _) NegInfinity = False"
| "num_less PosInfinity _ = False"
| "num_less NegInfinity NegInfinity = False"
| "num_less NegInfinity _ = True"

text \<open>
  \<^verbatim>\<open>type JsonEncodable = string | number | boolean | null | JsonObject | JsonEncodable[]\<close>.
  An object is an association list in property order; a lookup takes the first entry of a key.
\<close>

datatype JsonEncodable =
    JsonString string
  | JsonNumber jsnum
  | JsonBoolean bool
  | JsonNull
  | JsonObject "(string \<times> JsonEncodable) list"
  | JsonArray "JsonEncodable list"

section \<open>The error model and the normalizer\<close>

subsection \<open>Arbitrary values\<close>

text \<open>
  The checks and the normalizer take a value of type \<^verbatim>\<open>unknown\<close>, keep references to parts
  of it and mutate it in place.  Values are therefore primitives or references into a heap
  of objects and arrays; an address is an index into the heap.
\<close>

type_synonym addr = nat

datatype jsval =
    JUndefined
  | JNull
  | JBoolean bool
  | JNumber jsnum
  | JString string
  | JBigInt int
  | JSymbol string
  | JFunction nat
  | JRef addr

text \<open>
  A data property has a value and the attributes \<^verbatim>\<open>writable\<close> and \<^verbatim>\<open>configurable\<close>
  (\<^verbatim>\<open>Object.freeze\<close> clears both on every own property).  Accessor properties are not
  modelled.
\<close>

datatype property = Property (prop_value: jsval) (writable: bool) (configurable: bool)

text \<open>
  An object has its own properties in insertion order, the properties it inherits along its
  prototype chain, and the flag \<^verbatim>\<open>[[Extensible]]\<close>; a lookup in a list takes the first entry
  of a key.  An array is the list of its elements.
\<close>

datatype jsobj =
    Obj "(string \<times> property) list" "(string \<times> property) list" bool
  | Arr "jsval list"

type_synonym heap = "jsobj list"

text \<open>
  The object that a literal \<^verbatim>\<open>{ k: v, ... }\<close> creates: extensible, every property writable and
  configurable.  Of what it inherits from \<^verbatim>\<open>Object.prototype\<close> nothing bears one of the
  names that the checks and the normalizer ask for.
\<close>

definition object_literal :: "(string \<times> jsval) list \<Rightarrow> jsobj" where
  "object_literal kvs = Obj (map (\<lambda>(k, v). (k, Property v True True)) kvs) [] True"

datatype js_type =
  TUndefined | TObject | TBoolean | TNumber | TString | TBigint | TSymbol | TFunction

fun typeof :: "jsval \<Rightarrow> js_type" where
  "typeof JUndefined = TUndefined"
| "typeof JNull = TObject"
| "typeof (JBoolean _) = TBoolean"
| "typeof (JNumber _) = TNumber"
| "typeof (JString _) = TString"
| "typeof (JBigInt _) = TBigint"
| "typeof (JSymbol _) = TSymbol"
| "typeof (JFunction _) = TFunction"
| "typeof (JRef _) = TObject"

text \<open>
  The named properties of a value.  The program asks only for ten fixed names
  (\<^verbatim>\<open>message\<close>, \<^verbatim>\<open>code\<close>, \<^verbatim>\<open>status\<close>, \<^verbatim>\<open>messages\<close>, \<^verbatim>\<open>stack\<close>, \<^verbatim>\<open>sensitive\<close>, \<^verbatim>\<open>silent\<close>,
  \<^verbatim>\<open>extraResponseFields\<close>, \<^verbatim>\<open>cause\<close>, \<^verbatim>\<open>error\<close>); an array carries none of them.  A
  reference outside the heap, which no program can hold, has no properties.
\<close>

fun own_props :: "heap \<Rightarrow> jsval \<Rightarrow> (string \<times> property) list" where
  "own_props h (JRef a) =
     (if a < length h then (case h ! a of Obj own inh ext \<Rightarrow> own | Arr _ \<Rightarrow> []) else [])"
| "own_props h _ = []"

fun inherited_props :: "heap \<Rightarrow> jsval \<Rightarrow> (string \<times> property) list" where
  "inherited_props h (JRef a) =
     (if a < length h then (case h ! a of Obj own inh ext \<Rightarrow> inh | Arr _ \<Rightarrow> []) else [])"
| "inherited_props h _ = []"

text \<open>The property that a name resolves to: an own property hides an inherited one.\<close>

definition find_prop :: "heap \<Rightarrow> jsval \<Rightarrow> string \<Rightarrow> property option" where
  "find_prop h v k =
     (case map_of (own_props h v) k of
        Some p \<Rightarrow> Some p
      | None \<Rightarrow> map_of (inherited_props h v) k)"

text \<open>\<^verbatim>\<open>k in v\<close> for an object \<open>v\<close>, and the property read \<^verbatim>\<open>v.k\<close>.\<close>

definition has_prop :: "heap \<Rightarrow> jsval \<Rightarrow> string \<Rightarrow> bool" where
  "has_prop h v k \<longleftrightarrow> find_prop h v k \<noteq> None"

definition get_prop :: "heap \<Rightarrow> jsval \<Rightarrow> string \<Rightarrow> jsval" where
  "get_prop h v k = (case find_prop h v k of Some p \<Rightarrow> prop_value p | None \<Rightarrow> JUndefined)"

fun isArray :: "heap \<Rightarrow> jsval \<Rightarrow> bool" where
  "isArray h (JRef a) =
     (a < length h \<and> (case h ! a of Arr _ \<Rightarrow> True | Obj own inh ext \<Rightarrow> False))"
| "isArray h _ = False"

fun elements :: "heap \<Rightarrow> jsval \<Rightarrow> jsval list" where
  "elements h (JRef a) =
     (if a < length h then (case h ! a of Arr xs \<Rightarrow> xs | Obj own inh ext \<Rightarrow> []) else [])"
| "elements h _ = []"

text \<open>An object or array literal allocates at the next free address.\<close>

definition alloc :: "heap \<Rightarrow> jsobj \<Rightarrow> jsval \<times> heap" where
  "alloc h obj = (JRef (length h), h @ [obj])"

text \<open>
  The exceptions that the normalizer can raise: a \<^verbatim>\<open>TypeError\<close> (of \<^verbatim>\<open>"message" in null\<close>, of
  an assignment or a \<^verbatim>\<open>delete\<close> that the object refuses), and whatever
  \<^verbatim>\<open>JSON.stringify\<close> throws (on a cyclic structure or a BigInt).
\<close>

datatype error = TypeError | StringifyError

text \<open>
  The assignment \<^verbatim>\<open>v.k = x\<close> in module (strict) code.  An own property is overwritten when it
  is writable; a new own property is created when the object is extensible and does not
  inherit a read-only property of that name; otherwise the assignment raises a
  \<^verbatim>\<open>TypeError\<close>, as it does on a primitive.  The program assigns to objects only and never to
  an array.
\<close>

fun set_prop :: "heap \<Rightarrow> jsval \<Rightarrow> string \<Rightarrow> jsval \<Rightarrow> error + heap" where
  "set_prop h (JRef a) k x =
     (if a < length h
      then (case h ! a of
              Obj own inh ext \<Rightarrow>
                (case map_of own k of
                   Some p \<Rightarrow>
                     if writable p
                     then Inr (h[a := Obj (AList.update k (Property x True (configurable p)) own)
                                        inh ext])
                     else Inl TypeError
                 | None \<Rightarrow>
                     if ext \<and> (case map_of inh k of Some p \<Rightarrow> writable p | None \<Rightarrow> True)
                     then Inr (h[a := Obj (own @ [(k, Property x True True)]) inh ext])
                     else Inl TypeError)
            | Arr _ \<Rightarrow> Inr h)
      else Inr h)"
| "set_prop h _ k x = Inl TypeError"

text \<open>
  \<^verbatim>\<open>delete v.k\<close> in module (strict) code removes an own configurable property, raises a
  \<^verbatim>\<open>TypeError\<close> on an own property that is not configurable, and does nothing when the object
  has no own property of that name, also when it inherits one.
\<close>

fun delete_prop :: "heap \<Rightarrow> jsval \<Rightarrow> string \<Rightarrow> error + heap" where
  "delete_prop h (JRef a) k =
     (if a < length h
      then (case h ! a of
              Obj own inh ext \<Rightarrow>
                (case map_of own k of
                   Some p \<Rightarrow>
                     if configurable p
                     then Inr (h[a := Obj (AList.delete k own) inh ext])
                     else Inl TypeError
                 | None \<Rightarrow> Inr h)
            | Arr _ \<Rightarrow> Inr h)
      else Inr h)"
| "delete_prop h JUndefined k = Inl TypeError"
| "delete_prop h JNull k = Inl TypeError"
| "delete_prop h _ k = Inr h"

subsection \<open>The two checks\<close>

definition shallowIsIBaseError :: "heap \<Rightarrow> jsval \<Rightarrow> bool" where
  "shallowIsIBaseError h error \<longleftrightarrow>
     typeof error = TObject \<and>
     error \<noteq> JNull \<and>
     has_prop h error ''message'' \<and>
     typeof (get_prop h error ''message'') = TString \<and>
     (\<not> has_prop h error ''code'' \<or>
        get_prop h error ''code'' = JUndefined \<or>
        typeof (get_prop h error ''code'') = TString) \<and>
     (\<not> has_prop h error ''status'' \<or>
        get_prop h error ''status'' = JUndefined \<or>
        typeof (get_prop h error ''status'') = TNumber) \<and>
     (\<not> has_prop h error ''messages'' \<or>
        get_prop h error ''messages'' = JUndefined \<or>
        (isArray h (get_prop h error ''messages'') \<and>
         list_all
           (\<lambda>v. typeof v = TObject \<and>
                v \<noteq> JNull \<and>
                has_prop h v ''message'' \<and>
                typeof (get_prop h v ''message'') = TString)
           (elements h (get_prop h error ''messages'')))) \<and>
     (\<not> has_prop h error ''stack'' \<or>
        get_prop h error ''stack'' = JUndefined \<or>
        typeof (get_prop h error ''stack'') = TString) \<and>
     (\<not> has_prop h error ''sensitive'' \<or>
        get_prop h error ''sensitive'' = JUndefined \<or>
        typeof (get_prop h error ''sensitive'') = TBoolean) \<and>
     (\<not> has_prop h error ''silent'' \<or>
        get_prop h error ''silent'' = JUndefined \<or>
        typeof (get_prop h error ''silent'') = TBoolean) \<and>
     (\<not> has_prop h error ''extraResponseFields'' \<or>
        get_prop h error ''extraResponseFields'' = JUndefined \<or>
        (typeof (get_prop h error ''extraResponseFields'') = TObject \<and>
         get_prop h error ''extraResponseFields'' \<noteq> JNull \<and>
         \<not> has_prop h (get_prop h error ''extraResponseFields'') ''error''))"

text \<open>
  \<^verbatim>\<open>isIBaseError\<close> follows the \<^verbatim>\<open>cause\<close> links, which may form a cycle on the heap; the first
  argument bounds the depth of the recursion, and \<open>None\<close> means that the bound was reached.
\<close>

fun isIBaseError :: "nat \<Rightarrow> heap \<Rightarrow> jsval \<Rightarrow> bool option" where
  "isIBaseError 0 h error = None"
| "isIBaseError (Suc fuel) h error =
     (if typeof error = TObject \<and> error \<noteq> JNull \<and> shallowIsIBaseError h error
      then (if \<not> has_prop h error ''cause'' \<or> get_prop h error ''cause'' = JUndefined
            then Some True
            else isIBaseError fuel h (get_prop h error ''cause''))
      else Some False)"

subsection \<open>The normalizer\<close>

text \<open>
  \<^verbatim>\<open>String\<close> and \<^verbatim>\<open>JSON.stringify\<close> belong to the platform, not to the repository, and are
  parameters of the model.  \<^verbatim>\<open>JSON.stringify\<close> throws, returns \<^verbatim>\<open>undefined\<close> or returns a text.
\<close>

datatype stringified = StringifyThrows | StringifyUndefined | StringifyText string

record runtime =
  js_String :: "jsval \<Rightarrow> string"
  JSON_stringify :: "heap \<Rightarrow> jsval \<Rightarrow> stringified"

text \<open>The initial \<^verbatim>\<open>message\<close> of the reconstructed object.\<close>

definition reconstruct_message :: "runtime \<Rightarrow> heap \<Rightarrow> jsval \<Rightarrow> error + string" where
  "reconstruct_message rt h error =
     (case (has_prop h error ''message'', get_prop h error ''message'') of
        (True, JString s) \<Rightarrow> Inr s
      | _ \<Rightarrow>
          (case JSON_stringify rt h error of
             StringifyThrows \<Rightarrow> Inl StringifyError
           | StringifyUndefined \<Rightarrow>
               Inr ''<an error value so weird, that i've got zero idea how to handle it>''
           | StringifyText s \<Rightarrow> Inr s))"

text \<open>
  A statement of the reconstruction takes the heap to a new heap or raises an exception.
  \<^verbatim>\<open>if ("k" in error && typeof error.k === T) { reconstructed.k = error.k; }\<close>
\<close>

definition copy_field :: "js_type \<Rightarrow> string \<Rightarrow> jsval \<Rightarrow> jsval \<Rightarrow> heap \<Rightarrow> error + heap" where
  "copy_field T k error reconstructed h =
     (if has_prop h error k \<and> typeof (get_prop h error k) = T
      then set_prop h reconstructed k (get_prop h error k)
      else Inr h)"

text \<open>
  The callback of \<^verbatim>\<open>error.messages.map\<close>.  Its second test evaluates \<^verbatim>\<open>"message" in message\<close>
  for every value of type \<^verbatim>\<open>"object"\<close>, and on \<^verbatim>\<open>null\<close> the operator \<^verbatim>\<open>in\<close> raises a
  \<^verbatim>\<open>TypeError\<close>.
\<close>

definition coerce_message :: "runtime \<Rightarrow> heap \<Rightarrow> jsval \<Rightarrow> error + jsval \<times> heap" where
  "coerce_message rt h msg =
     (if typeof msg = TString then Inr (alloc h (object_literal [(''message'', msg)]))
      else if typeof msg = TObject \<and> msg = JNull then Inl TypeError
      else if typeof msg = TObject \<and> has_prop h msg ''message'' then Inr (msg, h)
      else (case JSON_stringify rt h msg of
              StringifyThrows \<Rightarrow> Inl StringifyError
            | StringifyUndefined \<Rightarrow>
                Inr (alloc h (object_literal [(''message'', JString
                  ''<the original validation message was really weird and could not be serialized>'')]))
            | StringifyText s \<Rightarrow> Inr (alloc h (object_literal [(''message'', JString s)]))))"

fun map_messages :: "runtime \<Rightarrow> heap \<Rightarrow> jsval list \<Rightarrow> error + jsval list \<times> heap" where
  "map_messages rt h [] = Inr ([], h)"
| "map_messages rt h (msg # rest) =
     (case coerce_message rt h msg of
        Inl e \<Rightarrow> Inl e
      | Inr (v, h1) \<Rightarrow>
          (case map_messages rt h1 rest of
             Inl e \<Rightarrow> Inl e
           | Inr (vs, h2) \<Rightarrow> Inr (v # vs, h2)))"

definition copy_messages :: "runtime \<Rightarrow> jsval \<Rightarrow> jsval \<Rightarrow> heap \<Rightarrow> error + heap" where
  "copy_messages rt error reconstructed h =
     (if has_prop h error ''messages'' \<and> isArray h (get_prop h error ''messages'')
      then (case map_messages rt h (elements h (get_prop h error ''messages'')) of
              Inl e \<Rightarrow> Inl e
            | Inr (vs, h1) \<Rightarrow>
                (let (arr, h2) = alloc h1 (Arr vs)
                 in set_prop h2 reconstructed ''messages'' arr))
      else Inr h)"

text \<open>
  The last statement of the reconstruction: the reconstructed object receives the very
  object that the input holds, and \<^verbatim>\<open>delete\<close> then acts on that object.
\<close>

definition copy_extraResponseFields :: "jsval \<Rightarrow> jsval \<Rightarrow> heap \<Rightarrow> error + heap" where
  "copy_extraResponseFields error reconstructed h =
     (if has_prop h error ''extraResponseFields'' \<and>
         get_prop h error ''extraResponseFields'' \<noteq> JUndefined \<and>
         get_prop h error ''extraResponseFields'' \<noteq> JNull \<and>
         typeof (get_prop h error ''extraResponseFields'') = TObject
      then
        (case set_prop h reconstructed ''extraResponseFields''
                (get_prop h error ''extraResponseFields'') of
           Inl e \<Rightarrow> Inl e
         | Inr h1 \<Rightarrow>
             if has_prop h1 (get_prop h1 reconstructed ''extraResponseFields'') ''error''
             then delete_prop h1 (get_prop h1 reconstructed ''extraResponseFields'') ''error''
             else Inr h1)
      else Inr h)"

text \<open>Statements in sequence: the first exception ends the run.\<close>

fun run_steps :: "(heap \<Rightarrow> error + heap) list \<Rightarrow> heap \<Rightarrow> error + heap" where
  "run_steps [] h = Inr h"
| "run_steps (step # rest) h =
     (case step h of Inl e \<Rightarrow> Inl e | Inr h' \<Rightarrow> run_steps rest h')"

text \<open>
  A call of the normalizer returns the result and the new heap, raises an exception, or
  (\<open>None\<close>) does not return within the recursion bound.  The two branches for objects take
  the recursive call as a parameter.
\<close>

type_synonym normalizer = "heap \<Rightarrow> jsval \<Rightarrow> (error + jsval \<times> heap) option"

definition copy_cause :: "normalizer \<Rightarrow> jsval \<Rightarrow> jsval \<Rightarrow> heap \<Rightarrow> (error + heap) option" where
  "copy_cause recur error reconstructed h =
     (if has_prop h error ''cause'' \<and>
         get_prop h error ''cause'' \<noteq> JUndefined \<and>
         get_prop h error ''cause'' \<noteq> JNull
      then (case recur h (get_prop h error ''cause'') of
              None \<Rightarrow> None
            | Some (Inl e) \<Rightarrow> Some (Inl e)
            | Some (Inr (c, h1)) \<Rightarrow> Some (set_prop h1 reconstructed ''cause'' c))
      else Some (Inr h))"

text \<open>The branch \<^verbatim>\<open>if (!shallowIsIBaseError(error)) { ... return reconstructed; }\<close>.\<close>

definition reconstruct :: "normalizer \<Rightarrow> runtime \<Rightarrow> normalizer" where
  "reconstruct recur rt h error =
     (case reconstruct_message rt h error of
        Inl e \<Rightarrow> Some (Inl e)
      | Inr msg \<Rightarrow>
          (let (reconstructed, h0) = alloc h (object_literal [(''message'', JString msg)])
           in case run_steps
                     [copy_field TString ''code'' error reconstructed,
                      copy_field TNumber ''status'' error reconstructed,
                      copy_messages rt error reconstructed,
                      copy_field TString ''stack'' error reconstructed,
                      copy_field TBoolean ''sensitive'' error reconstructed,
                      copy_field TBoolean ''silent'' error reconstructed] h0 of
                Inl e \<Rightarrow> Some (Inl e)
              | Inr h6 \<Rightarrow>
                  (case copy_cause recur error reconstructed h6 of
                     None \<Rightarrow> None
                   | Some (Inl e) \<Rightarrow> Some (Inl e)
                   | Some (Inr h7) \<Rightarrow>
                       (case copy_extraResponseFields error reconstructed h7 of
                          Inl e \<Rightarrow> Some (Inl e)
                        | Inr h8 \<Rightarrow> Some (Inr (reconstructed, h8))))))"

text \<open>The final part, for an error that passes the shallow check: its cause is corrected in place.\<close>

definition correct_cause :: "normalizer \<Rightarrow> normalizer" where
  "correct_cause recur h error =
     (if has_prop h error ''cause''
      then (if get_prop h error ''cause'' = JUndefined \<or> get_prop h error ''cause'' = JNull
            then (case delete_prop h error ''cause'' of
                    Inl e \<Rightarrow> Some (Inl e)
                  | Inr h1 \<Rightarrow> Some (Inr (error, h1)))
            else (case recur h (get_prop h error ''cause'') of
                    None \<Rightarrow> None
                  | Some (Inl e) \<Rightarrow> Some (Inl e)
                  | Some (Inr (c, h1)) \<Rightarrow>
                      (case set_prop h1 error ''cause'' c of
                         Inl e \<Rightarrow> Some (Inl e)
                       | Inr h2 \<Rightarrow> Some (Inr (error, h2)))))
      else Some (Inr (error, h)))"

fun toIBaseError :: "nat \<Rightarrow> runtime \<Rightarrow> normalizer" where
  "toIBaseError 0 rt h error = None"
| "toIBaseError (Suc fuel) rt h error =
     (if typeof error \<noteq> TObject \<or> error = JNull
      then Some (Inr (alloc h (object_literal [(''message'', JString (js_String rt error))])))
      else if \<not> shallowIsIBaseError h error
      then reconstruct (toIBaseError fuel rt) rt h error
      else correct_cause (toIBaseError fuel rt) h error)"

section \<open>Typed error chains and reports\<close>

type_synonym ExtraResponseFields = "(string \<times> JsonEncodable) list"
type_synonym ExtraErrorIdentifiers = "(string \<times> JsonEncodable) list"

datatype ValidationIssue = ValidationIssue (issue_message: string)

text \<open>
  \<^verbatim>\<open>interface IBaseError\<close>, as the analyzer reads it.  An optional field that is absent or
  \<^verbatim>\<open>undefined\<close> is \<open>None\<close>.  The cause chain of a value of this type is finite.
\<close>

datatype IBaseError = IBaseError
  (message: string)
  (code: "string option")
  (status: "jsnum option")
  (messages: "ValidationIssue list option")
  (stack: "string option")
  (cause: "IBaseError option")
  (sensitive: "bool option")
  (silent: "bool option")
  (extraResponseFields: "ExtraResponseFields option")
  (extraErrorIdentifiers: "ExtraErrorIdentifiers option")

record ErrorReport =
  report_message :: string
  report_code :: string
  report_status :: jsnum
  validationIssues :: "ValidationIssue list option"
  causeStack :: "string list"
  rootStackTrace :: "string list"
  report_sensitive :: bool
  report_silent :: bool
  report_extraResponseFields :: ExtraResponseFields
  report_extraErrorIdentifiers :: ExtraErrorIdentifiers

section \<open>The cause-chain analyzer\<close>

subsection \<open>String helpers of the stack-trace parser\<close>

text \<open>
  Strings are lists of 8-bit code units.  \<^verbatim>\<open>trim\<close> and the regular expression class
  \<^verbatim>\<open>\s\<close> use the same set of white space and line terminators; below code unit 256 these are
  tab, line feed, vertical tab, form feed, carriage return, space and no-break space.
\<close>

definition is_js_space :: "char \<Rightarrow> bool" where
  "is_js_space c \<longleftrightarrow> of_char c \<in> {9, 10, 11, 12, 13, 32, 160 :: nat}"

definition trim :: "string \<Rightarrow> string" where
  "trim s = rev (dropWhile is_js_space (rev (dropWhile is_js_space s)))"

fun startsWith :: "string \<Rightarrow> string \<Rightarrow> bool" where
  "startsWith s [] = True"
| "startsWith [] (p # ps) = False"
| "startsWith (c # cs) (p # ps) = (c = p \<and> startsWith cs ps)"

text \<open>\<^verbatim>\<open>s.split("\n")\<close>: the pieces between line feeds; the empty string gives one empty piece.\<close>

fun split_lines :: "string \<Rightarrow> string list" where
  "split_lines [] = [[]]"
| "split_lines (c # cs) =
     (if c = CHR 0x0A then [] # split_lines cs
      else (case split_lines cs of
              [] \<Rightarrow> [[c]]
            | l # ls \<Rightarrow> (c # l) # ls))"

text \<open>
  \<^verbatim>\<open>s.replace(pattern, replacement)\<close> with a string pattern replaces the first occurrence only.
  The replacements used here (\<^verbatim>\<open>""\<close> and \<^verbatim>\<open>"."\<close>) contain no \<^verbatim>\<open>$\<close> pattern.
\<close>

fun replace_first :: "string \<Rightarrow> string \<Rightarrow> string \<Rightarrow> string" where
  "replace_first pat rep [] = (if pat = [] then rep else [])"
| "replace_first pat rep (c # cs) =
     (if startsWith (c # cs) pat then rep @ drop (length pat) (c # cs)
      else c # replace_first pat rep cs)"

text \<open>
  The callback of \<^verbatim>\<open>flatMap\<close> in \<^verbatim>\<open>analyzeErrorStack\<close>.  On a line that starts with
  \<^verbatim>\<open>"at "\<close> the expression \<^verbatim>\<open>/^at\s+/\<close> matches \<^verbatim>\<open>at\<close> and the longest run of white space after
  it.  \<open>cwd\<close> is the result of \<^verbatim>\<open>process.cwd()\<close>, \<open>None\<close> when that call throws.
\<close>

definition parse_stack_line :: "string option \<Rightarrow> string \<Rightarrow> string list" where
  "parse_stack_line cwd line0 =
     (let line = trim line0 in
      if \<not> startsWith line ''at '' then []
      else
        let line = replace_first ''file://'' '''' (dropWhile is_js_space (drop 2 line)) in
        (case cwd of
           None \<Rightarrow> [line]
         | Some d \<Rightarrow>
             [replace_first d ''.'' (replace_first (d @ ''/node_modules/'') '''' line)]))"

definition parse_stack :: "string option \<Rightarrow> string \<Rightarrow> string list" where
  "parse_stack cwd s = concat (map (parse_stack_line cwd) (split_lines s))"

subsection \<open>The traversal\<close>

text \<open>
  The mutable locals of \<^verbatim>\<open>analyzeErrorStack\<close>: the partial report \<^verbatim>\<open>result\<close> and
  \<^verbatim>\<open>lastStack\<close>.  An unset field of \<^verbatim>\<open>result\<close> is \<open>None\<close>.
\<close>

record accumulator =
  acc_status :: "jsnum option"
  acc_code :: "string option"
  acc_validationIssues :: "ValidationIssue list option"
  acc_sensitive :: "bool option"
  acc_silent :: "bool option"
  acc_causeStack :: "string list"
  acc_extraResponseFields :: ExtraResponseFields
  acc_extraErrorIdentifiers :: ExtraErrorIdentifiers
  lastStack :: "string option"

text \<open>\<^verbatim>\<open>a ??= b\<close> and \<^verbatim>\<open>a ?? b\<close> on optional values.\<close>

fun nullish_or :: "'a option \<Rightarrow> 'a option \<Rightarrow> 'a option" where
  "nullish_or (Some a) _ = Some a"
| "nullish_or None b = b"

text \<open>
  \<^verbatim>\<open>key in result.extraResponseFields\<close>: the accumulator objects are created by the literal
  \<^verbatim>\<open>{}\<close>, so besides their own keys the operator \<^verbatim>\<open>in\<close> also finds the properties inherited
  from \<^verbatim>\<open>Object.prototype\<close>.
\<close>

definition Object_prototype_keys :: "string list" where
  "Object_prototype_keys =
     [''constructor'', ''__defineGetter__'', ''__defineSetter__'', ''hasOwnProperty'',
      ''__lookupGetter__'', ''__lookupSetter__'', ''isPrototypeOf'', ''propertyIsEnumerable'',
      ''toString'', ''valueOf'', ''__proto__'', ''toLocaleString'']"

definition key_in :: "string \<Rightarrow> (string \<times> 'v) list \<Rightarrow> bool" where
  "key_in k obj \<longleftrightarrow> k \<in> fst ` set obj \<or> k \<in> set Object_prototype_keys"

text \<open>The two \<^verbatim>\<open>for (const [key, value] of Object.entries(...))\<close> loops.\<close>

fun merge_response_fields :: "ExtraResponseFields \<Rightarrow> ExtraResponseFields \<Rightarrow> ExtraResponseFields" where
  "merge_response_fields acc [] = acc"
| "merge_response_fields acc ((key, v) # rest) =
     merge_response_fields
       (if key \<noteq> ''error'' \<and> \<not> key_in key acc then acc @ [(key, v)] else acc) rest"

fun merge_error_identifiers :: "ExtraErrorIdentifiers \<Rightarrow> ExtraErrorIdentifiers \<Rightarrow> ExtraErrorIdentifiers" where
  "merge_error_identifiers acc [] = acc"
| "merge_error_identifiers acc ((key, v) # rest) =
     merge_error_identifiers (if \<not> key_in key acc then acc @ [(key, v)] else acc) rest"

text \<open>One iteration of the \<^verbatim>\<open>while\<close> loop, after \<^verbatim>\<open>currentError = currentError.cause\<close>.
  No statement of the loop assigns \<^verbatim>\<open>lastStack\<close>.\<close>

definition visit :: "IBaseError \<Rightarrow> accumulator \<Rightarrow> accumulator" where
  "visit currentError result =
     result\<lparr>
       acc_causeStack := acc_causeStack result @ [message currentError],
       acc_status := nullish_or (acc_status result) (status currentError),
       acc_code := nullish_or (acc_code result) (code currentError),
       acc_validationIssues := nullish_or (acc_validationIssues result) (messages currentError),
       acc_sensitive := nullish_or (acc_sensitive result) (sensitive currentError),
       acc_silent := nullish_or (acc_silent result)
          (nullish_or (silent currentError)
             (case status currentError of
                Some s \<Rightarrow> Some (num_less s (Finite 500))
              | None \<Rightarrow> None)),
       acc_extraResponseFields :=
          (case extraResponseFields currentError of
             Some extra \<Rightarrow> merge_response_fields (acc_extraResponseFields result) extra
           | None \<Rightarrow> acc_extraResponseFields result),
       acc_extraErrorIdentifiers :=
          (case extraErrorIdentifiers currentError of
             Some ids \<Rightarrow> merge_error_identifiers (acc_extraErrorIdentifiers result) ids
           | None \<Rightarrow> acc_extraErrorIdentifiers result)
     \<rparr>"

text \<open>
  \<^verbatim>\<open>while (currentError.cause !== undefined)\<close>, entered with \<^verbatim>\<open>currentError = {cause: topError}\<close>:
  \<open>traverse e\<close> is the loop from the moment \<open>e\<close> is the pending cause.
\<close>

fun traverse :: "IBaseError \<Rightarrow> accumulator \<Rightarrow> accumulator" where
  "traverse (IBaseError m c s ms st cs se si erf eei) result =
     (let result' = visit (IBaseError m c s ms st cs se si erf eei) result in
      case cs of
        None \<Rightarrow> result'
      | Some next_error \<Rightarrow> traverse next_error result')"

definition initial_accumulator :: accumulator where
  "initial_accumulator =
     \<lparr> acc_status = None, acc_code = None, acc_validationIssues = None,
       acc_sensitive = None, acc_silent = None, acc_causeStack = [],
       acc_extraResponseFields = [], acc_extraErrorIdentifiers = [],
       lastStack = None \<rparr>"

definition analyzeErrorStack :: "string option \<Rightarrow> IBaseError \<Rightarrow> ErrorReport" where
  "analyzeErrorStack cwd topError =
     (let result = traverse topError initial_accumulator in
      \<lparr> report_message = message topError,
        report_code = (case acc_code result of Some c \<Rightarrow> c | None \<Rightarrow> ''E_UNEXPECTED_ERROR''),
        report_status = (case acc_status result of Some s \<Rightarrow> s | None \<Rightarrow> Finite 500),
        validationIssues = acc_validationIssues result,
        causeStack = acc_causeStack result,
        rootStackTrace = (case lastStack result of Some s \<Rightarrow> parse_stack cwd s | None \<Rightarrow> []),
        report_sensitive = (case acc_sensitive result of Some b \<Rightarrow> b | None \<Rightarrow> False),
        report_silent = (case acc_silent result of Some b \<Rightarrow> b | None \<Rightarrow> False),
        report_extraResponseFields = acc_extraResponseFields result,
        report_extraErrorIdentifiers = acc_extraErrorIdentifiers result \<rparr>)"

section \<open>The response serializer\<close>

record SerializedErrorReport =
  ser_message :: string
  ser_code :: string
  ser_validationIssues :: "ValidationIssue list option"
  ser_causeStack :: "string list option"
  ser_rootStackTrace :: "string list option"

text \<open>
  \<^verbatim>\<open>interface ErrorResponse { error: SerializedErrorReport }\<close> together with the spread extra
  fields: an object whose values are either the serialized report or a JSON value.
\<close>

datatype response_value = ErrorField SerializedErrorReport | ExtraField JsonEncodable

type_synonym ErrorResponse = "(string \<times> response_value) list"

record SerializeErrorReportOptions =
  includeStackTrace :: bool

text \<open>
  \<^verbatim>\<open>Partial<SerializeErrorReportOptions>\<close>: \<open>None\<close> is an option that is absent or
  \<^verbatim>\<open>undefined\<close>; both leave \<^verbatim>\<open>fullOptions.includeStackTrace\<close> falsy.
\<close>

record PartialSerializeErrorReportOptions =
  opt_includeStackTrace :: "bool option"

definition serializeDefaults :: SerializeErrorReportOptions where
  "serializeDefaults = \<lparr> includeStackTrace = False \<rparr>"

definition no_options :: PartialSerializeErrorReportOptions where
  "no_options = \<lparr> opt_includeStackTrace = None \<rparr>"

text \<open>
  An object literal defines its properties from left to right: a spread key that is already
  there gets the new value and keeps its place, a new key is added at the end.
\<close>

definition spread :: "(string \<times> 'v) list \<Rightarrow> (string \<times> 'v) list \<Rightarrow> (string \<times> 'v) list" where
  "spread obj src = foldl (\<lambda>acc (k, v). AList.update k v acc) obj src"

definition serializeErrorReport ::
  "ErrorReport \<Rightarrow> PartialSerializeErrorReportOptions \<Rightarrow> ErrorResponse" where
  "serializeErrorReport report options =
     (let fullOptions =
            \<lparr> includeStackTrace =
                (case opt_includeStackTrace options of
                   Some b \<Rightarrow> b
                 | None \<Rightarrow> includeStackTrace serializeDefaults) \<rparr>
      in spread
           [(''error'', ErrorField
              \<lparr> ser_message = report_message report,
                ser_code = report_code report,
                ser_validationIssues = validationIssues report,
                ser_causeStack =
                  (if report_sensitive report then None else Some (causeStack report)),
                ser_rootStackTrace =
                  (if includeStackTrace fullOptions then Some (rootStackTrace report)
                   else None) \<rparr>)]
           (map (\<lambda>(k, v). (k, ExtraField v)) (report_extraResponseFields report)))"

section \<open>Reference notions for the analyzer\<close>

text \<open>The nodes of a cause chain, from the top error down to the root cause.\<close>

fun chain :: "IBaseError \<Rightarrow> IBaseError list" where
  "chain (IBaseError m c s ms st cs se si erf eei) =
     IBaseError m c s ms st cs se si erf eei #
       (case cs of None \<Rightarrow> [] | Some next_error \<Rightarrow> chain next_error)"

text \<open>The number of \<^verbatim>\<open>cause\<close> links below an error.\<close>

fun cause_links :: "IBaseError \<Rightarrow> nat" where
  "cause_links (IBaseError m c s ms st cs se si erf eei) =
     (case cs of None \<Rightarrow> 0 | Some next_error \<Rightarrow> Suc (cause_links next_error))"

text \<open>First-write-wins: the value of the first node of a list that defines one.\<close>

fun first_defined :: "('a \<Rightarrow> 'b option) \<Rightarrow> 'a list \<Rightarrow> 'b option" where
  "first_defined f [] = None"
| "first_defined f (x # xs) = (case f x of Some v \<Rightarrow> Some v | None \<Rightarrow> first_defined f xs)"

text \<open>
  The value one node resolves for \<^verbatim>\<open>silent\<close>: its explicit flag, else \<^verbatim>\<open>status < 500\<close>
  when it has a status, else nothing.
\<close>

definition node_silent :: "IBaseError \<Rightarrow> bool option" where
  "node_silent e =
     (case silent e of
        Some b \<Rightarrow> Some b
      | None \<Rightarrow> (case status e of Some s \<Rightarrow> Some (num_less s (Finite 500)) | None \<Rightarrow> None))"

section \<open>Reference notions for the normalizer\<close>

text \<open>
  The normalizer changes existing objects in two ways only: it sets or deletes \<open>cause\<close>, and
  it deletes \<open>error\<close>.  Two states of an object agree when they are of the same kind, inherit
  the same, are equally extensible, and their own properties differ at most in these two.
\<close>

fun same_kind :: "jsobj \<Rightarrow> jsobj \<Rightarrow> bool" where
  "same_kind (Obj _ _ _) (Obj _ _ _) = True"
| "same_kind (Arr _) (Arr _) = True"
| "same_kind _ _ = False"

fun unchanged_at :: "jsobj \<Rightarrow> jsobj \<Rightarrow> bool" where
  "unchanged_at (Obj own inh ext) (Obj own' inh' ext') =
     (inh' = inh \<and> ext' = ext \<and>
      (\<forall>k. k \<noteq> ''cause'' \<and> k \<noteq> ''error'' \<longrightarrow> map_of own' k = map_of own k))"
| "unchanged_at (Arr xs) (Arr ys) = (xs = ys)"
| "unchanged_at _ _ = False"

text \<open>
  An ordinary object accepts every assignment and every \<^verbatim>\<open>delete\<close>: it is extensible, its own
  properties are writable and configurable, and what it inherits is writable.  Objects made
  by literals, by \<^verbatim>\<open>new Error\<close> and by \<^verbatim>\<open>JSON.parse\<close> are ordinary; frozen and sealed objects
  are not.  The program only reads arrays.
\<close>

fun ordinary :: "jsobj \<Rightarrow> bool" where
  "ordinary (Obj own inh ext) =
     (ext \<and> list_all (\<lambda>(k, p). writable p \<and> configurable p) own
          \<and> list_all (\<lambda>(k, p). writable p) inh)"
| "ordinary (Arr _) = True"

text \<open>
  \<open>preserved n h h'\<close>: the heap only grew, every address kept its kind and stayed ordinary
  if it was, and the objects below address \<open>n\<close> agree.
\<close>

definition preserved :: "nat \<Rightarrow> heap \<Rightarrow> heap \<Rightarrow> bool" where
  "preserved n h h' \<longleftrightarrow>
     length h \<le> length h' \<and>
     (\<forall>a < length h. same_kind (h ! a) (h' ! a) \<and> (ordinary (h ! a) \<longrightarrow> ordinary (h' ! a))) \<and>
     (\<forall>a < length h. a < n \<longrightarrow> unchanged_at (h ! a) (h' ! a))"







section \<open>Example values\<close>

text \<open>An error without a cause whose stack text has one frame line.\<close>

definition example_stack :: string where
  "example_stack = ''Error: hi'' @ [CHR 0x0A] @ ''    at main (file:///srv/app/index.js:3:9)''"

definition example_root_error :: IBaseError where
  "example_root_error =
     IBaseError ''hi'' None None None (Some example_stack) None None None None None"

text \<open>The chain \<open>A \<rightarrow> B \<rightarrow> C\<close> with no status on \<open>A\<close>, status 418 on \<open>B\<close> and 500 on \<open>C\<close>.\<close>

definition example_C :: IBaseError where
  "example_C = IBaseError ''C'' None (Some (Finite 500)) None None None None None None None"

definition example_B :: IBaseError where
  "example_B =
     IBaseError ''B'' None (Some (Finite 418)) None None (Some example_C) None None None None"

definition example_A :: IBaseError where
  "example_A = IBaseError ''A'' None None None None (Some example_B) None None None None"

text \<open>\<^verbatim>\<open>new BaseError("hi", { cause: "helo" })\<close> of the test suite, as a typed chain.\<close>

definition example_hi_helo :: IBaseError where
  "example_hi_helo =
     IBaseError ''hi'' None None None None
       (Some (IBaseError ''helo'' None None None None None None None None None))
       None None None None"

text \<open>An error whose extra response fields carry the reserved key.\<close>

definition example_spoof :: IBaseError where
  "example_spoof =
     IBaseError ''denied'' None (Some (Finite 403)) None None None (Some True) None
       (Some [(''error'', JsonString ''spoof''), (''retryAfter'', JsonNumber (Finite 30))])
       None"

definition example_report :: ErrorReport where
  "example_report =
     \<lparr> report_message = ''denied'', report_code = ''E_DENIED'', report_status = Finite 403,
       validationIssues = None, causeStack = [''denied'', ''token expired''],
       rootStackTrace = [''main (./index.js:3:9)''], report_sensitive = True,
       report_silent = True,
       report_extraResponseFields = [(''retryAfter'', JsonNumber (Finite 30))],
       report_extraErrorIdentifiers = [] \<rparr>"

definition example_overriding_report :: ErrorReport where
  "example_overriding_report =
     example_report \<lparr> report_extraResponseFields := [(''error'', JsonNull)] \<rparr>"

text \<open>A runtime for the examples; none of them reaches a call of it.\<close>

definition example_runtime :: runtime where
  "example_runtime =
     \<lparr> js_String = (\<lambda>v. ''[string]''), JSON_stringify = (\<lambda>h v. StringifyUndefined) \<rparr>"

text \<open>A runtime whose \<^verbatim>\<open>JSON.stringify\<close> throws, as the platform's does on a cyclic object.\<close>

definition example_throwing_runtime :: runtime where
  "example_throwing_runtime =
     \<lparr> js_String = (\<lambda>v. ''[string]''), JSON_stringify = (\<lambda>h v. StringifyThrows) \<rparr>"

text \<open>\<^verbatim>\<open>{ message: "x", messages: [{ message: 5 }] }\<close> and its normal form.\<close>

definition example_heap_bad_issue :: heap where
  "example_heap_bad_issue =
     [object_literal [(''message'', JString ''x''), (''messages'', JRef 1)],
      Arr [JRef 2],
      object_literal [(''message'', JNumber (Finite 5))]]"

definition example_heap_bad_issue_normalized :: heap where
  "example_heap_bad_issue_normalized =
     example_heap_bad_issue @
       [object_literal [(''message'', JString ''x''), (''messages'', JRef 4)],
        Arr [JRef 2]]"

text \<open>\<^verbatim>\<open>{ message: "x", messages: [null] }\<close>.\<close>

definition example_heap_null_issue :: heap where
  "example_heap_null_issue =
     [object_literal [(''message'', JString ''x''), (''messages'', JRef 1)],
      Arr [JNull]]"

text \<open>\<^verbatim>\<open>const o = {}; o.self = o\<close>: an object that \<^verbatim>\<open>JSON.stringify\<close> rejects.\<close>

definition example_heap_cyclic :: heap where
  "example_heap_cyclic = [object_literal [(''self'', JRef 0)]]"

text \<open>
  Three objects for the shallow check:
  \<^verbatim>\<open>{ message: "error", extraErrorIdentifiers: { message: "zelo" } }\<close>, the same under the name
  \<^verbatim>\<open>extraErrorFields\<close> that the tests of the check use, and
  \<^verbatim>\<open>{ message: "error", extraResponseFields: [] }\<close>.
\<close>

definition example_heap_reserved_identifier :: heap where
  "example_heap_reserved_identifier =
     [object_literal [(''message'', JString ''error''), (''extraErrorIdentifiers'', JRef 1)],
      object_literal [(''message'', JString ''zelo'')]]"

definition example_heap_reserved_field :: heap where
  "example_heap_reserved_field =
     [object_literal [(''message'', JString ''error''), (''extraErrorFields'', JRef 1)],
      object_literal [(''message'', JString ''zelo'')]]"

definition example_heap_array_fields :: heap where
  "example_heap_array_fields =
     [object_literal [(''message'', JString ''error''), (''extraResponseFields'', JRef 1)],
      Arr []]"






section \<open>Properties of the analyzer\<close>

lemma nullish_or_assoc: "nullish_or (nullish_or a b) c = nullish_or a (nullish_or b c)"
  by (cases a) simp_all

lemma visit_fields:
  "acc_causeStack (visit e acc) = acc_causeStack acc @ [message e]"
  "acc_status (visit e acc) = nullish_or (acc_status acc) (status e)"
  "acc_code (visit e acc) = nullish_or (acc_code acc) (code e)"
  "acc_validationIssues (visit e acc) = nullish_or (acc_validationIssues acc) (messages e)"
  "acc_sensitive (visit e acc) = nullish_or (acc_sensitive acc) (sensitive e)"
  "acc_silent (visit e acc) = nullish_or (acc_silent acc) (node_silent e)"
  "lastStack (visit e acc) = lastStack acc"
  by (simp_all add: visit_def node_silent_def split: option.splits)

lemma traverse_unfold:
  "traverse e acc = (case cause e of None \<Rightarrow> visit e acc | Some n \<Rightarrow> traverse n (visit e acc))"
  by (cases e) (simp add: Let_def split: option.splits)

text \<open>Every field that a visit sets with \<^verbatim>\<open>??=\<close> ends as the first defined value of the chain.\<close>

lemma traverse_first_defined:
  assumes step: "\<And>e acc. sel (visit e acc) = nullish_or (sel acc) (f e)"
  shows "sel (traverse e acc) = nullish_or (sel acc) (first_defined f (chain e))"
proof (induction e acc rule: traverse.induct)
  case (1 m c s ms st cs se si erf eei result)
  let ?e = "IBaseError m c s ms st cs se si erf eei"
  show ?case
  proof (cases cs)
    case None
    have "sel (traverse ?e result) = sel (visit ?e result)"
      using None by (simp add: traverse_unfold)
    also have "\<dots> = nullish_or (sel result) (f ?e)" by (rule step)
    also have "\<dots> = nullish_or (sel result) (first_defined f (chain ?e))"
      using None by (cases "f ?e") simp_all
    finally show ?thesis .
  next
    case (Some n)
    have "sel (traverse ?e result) = sel (traverse n (visit ?e result))"
      using Some by (simp add: traverse_unfold)
    also have "\<dots> = nullish_or (sel (visit ?e result)) (first_defined f (chain n))"
      using "1.IH" [OF refl Some] .
    also have "\<dots> = nullish_or (sel result) (nullish_or (f ?e) (first_defined f (chain n)))"
      by (simp add: step nullish_or_assoc)
    also have "\<dots> = nullish_or (sel result) (first_defined f (chain ?e))"
      using Some by (cases "f ?e") simp_all
    finally show ?thesis .
  qed
qed

lemma traverse_causeStack:
  "acc_causeStack (traverse e acc) = acc_causeStack acc @ map message (chain e)"
proof (induction e acc rule: traverse.induct)
  case (1 m c s ms st cs se si erf eei result)
  then show ?case
    by (cases cs) (simp_all add: Let_def visit_fields)
qed

lemma chain_length: "length (chain e) = Suc (cause_links e)"
  by (induction e rule: chain.induct) (simp split: option.splits)

lemma traverse_lastStack: "lastStack (traverse e acc) = lastStack acc"
proof (induction e acc rule: traverse.induct)
  case (1 m c s ms st cs se si erf eei result)
  then show ?case
    by (cases cs) (simp_all add: Let_def visit_fields)
qed

lemma analyzeErrorStack_rootStackTrace_empty:
  "rootStackTrace (analyzeErrorStack cwd topError) = []"
  by (simp add: analyzeErrorStack_def Let_def traverse_lastStack initial_accumulator_def)

lemma merge_response_fields_no_error:
  "''error'' \<notin> fst ` set acc \<Longrightarrow> ''error'' \<notin> fst ` set (merge_response_fields acc extra)"
proof (induction acc extra rule: merge_response_fields.induct)
  case (1 acc)
  then show ?case by simp
next
  case (2 acc key v rest)
  show ?case
  proof (cases "key \<noteq> ''error'' \<and> \<not> key_in key acc")
    case True
    with 2 show ?thesis by auto
  next
    case False
    with 2 show ?thesis by auto
  qed
qed

lemma visit_no_error_key:
  "''error'' \<notin> fst ` set (acc_extraResponseFields acc) \<Longrightarrow>
   ''error'' \<notin> fst ` set (acc_extraResponseFields (visit e acc))"
  by (cases "extraResponseFields e") (simp_all add: visit_def merge_response_fields_no_error)

lemma traverse_no_error_key:
  "''error'' \<notin> fst ` set (acc_extraResponseFields acc) \<Longrightarrow>
   ''error'' \<notin> fst ` set (acc_extraResponseFields (traverse e acc))"
proof (induction e acc rule: traverse.induct)
  case (1 m c s ms st cs se si erf eei result)
  then show ?case
    by (cases cs) (simp_all add: Let_def visit_no_error_key)
qed

lemma analyzeErrorStack_no_error_key:
  "''error'' \<notin> fst ` set (report_extraResponseFields (analyzeErrorStack cwd topError))"
  by (simp add: analyzeErrorStack_def Let_def traverse_no_error_key initial_accumulator_def)

text \<open>
  C1.  The claim: the report's \<open>rootStackTrace\<close> is parsed from the stack text of the root
  cause, so an error without a cause whose stack has a frame line gets a non-empty trace.
  The code: \<^verbatim>\<open>lastStack\<close> is declared and read but never assigned, so the trace is empty for
  every input.  On the example error the parser applied to its stack gives one frame,
  and the report carries none.
\<close>

theorem analyzeErrorStack_rootStackTrace_example:
  "cause example_root_error = None
   \<and> stack example_root_error = Some example_stack
   \<and> parse_stack None example_stack = [''main (/srv/app/index.js:3:9)'']
   \<and> rootStackTrace (analyzeErrorStack None example_root_error) = []"
proof -
  have "parse_stack None example_stack = [''main (/srv/app/index.js:3:9)'']"
    by code_simp
  then show ?thesis
    by (simp add: analyzeErrorStack_rootStackTrace_empty example_root_error_def)
qed

text \<open>
  C5.  \<open>status\<close>, \<open>code\<close>, \<open>validationIssues\<close> and \<open>sensitive\<close> of the report are the first
  defined value along the chain from the top error down, with the defaults 500,
  \<^verbatim>\<open>E_UNEXPECTED_ERROR\<close> and false when no node defines one (\<open>validationIssues\<close> has no default).
\<close>

theorem analyzeErrorStack_first_write_wins:
  "report_status (analyzeErrorStack cwd topError) =
     (case first_defined status (chain topError) of Some s \<Rightarrow> s | None \<Rightarrow> Finite 500)
   \<and> report_code (analyzeErrorStack cwd topError) =
     (case first_defined code (chain topError) of Some c \<Rightarrow> c | None \<Rightarrow> ''E_UNEXPECTED_ERROR'')
   \<and> validationIssues (analyzeErrorStack cwd topError) = first_defined messages (chain topError)
   \<and> report_sensitive (analyzeErrorStack cwd topError) =
     (case first_defined sensitive (chain topError) of Some b \<Rightarrow> b | None \<Rightarrow> False)"
  by (simp add: analyzeErrorStack_def Let_def initial_accumulator_def
      traverse_first_defined [of acc_status status, OF visit_fields(2)]
      traverse_first_defined [of acc_code code, OF visit_fields(3)]
      traverse_first_defined [of acc_validationIssues messages, OF visit_fields(4)]
      traverse_first_defined [of acc_sensitive sensitive, OF visit_fields(5)])

text \<open>The chain \<open>A \<rightarrow> B(418) \<rightarrow> C(500)\<close> reports status 418 and the defaults elsewhere.\<close>

theorem analyzeErrorStack_first_write_wins_witness:
  "report_status (analyzeErrorStack None example_A) = Finite 418
   \<and> report_code (analyzeErrorStack None example_A) = ''E_UNEXPECTED_ERROR''
   \<and> validationIssues (analyzeErrorStack None example_A) = None
   \<and> report_sensitive (analyzeErrorStack None example_A) = False"
  using analyzeErrorStack_first_write_wins [of None example_A]
  by (simp add: example_A_def example_B_def example_C_def)

text \<open>
  C6.  \<open>silent\<close> of the report is the first value a node resolves, scanning from the top:
  the node's explicit flag, else \<^verbatim>\<open>status < 500\<close> if the node has a status; false when no node
  resolves it.
\<close>

theorem analyzeErrorStack_silent:
  "report_silent (analyzeErrorStack cwd topError) =
     (case first_defined node_silent (chain topError) of Some b \<Rightarrow> b | None \<Rightarrow> False)"
  by (simp add: analyzeErrorStack_def Let_def initial_accumulator_def
      traverse_first_defined [of acc_silent node_silent, OF visit_fields(6)])

text \<open>In \<open>A \<rightarrow> B(418) \<rightarrow> C(500)\<close> the top resolves nothing and \<open>B\<close> resolves \<^verbatim>\<open>418 < 500\<close>.\<close>

theorem analyzeErrorStack_silent_witness:
  "node_silent example_A = None \<and> report_silent (analyzeErrorStack None example_A) = True"
  using analyzeErrorStack_silent [of None example_A]
  by (simp add: example_A_def example_B_def example_C_def node_silent_def)

text \<open>
  C7.  The report's \<open>causeStack\<close> is the list of messages of the chain from the top error to the
  root cause, its length is one more than the number of cause links, and the report's
  message is the top error's message.
\<close>

theorem analyzeErrorStack_causeStack:
  "causeStack (analyzeErrorStack cwd topError) = map message (chain topError)
   \<and> length (causeStack (analyzeErrorStack cwd topError)) = 1 + cause_links topError
   \<and> report_message (analyzeErrorStack cwd topError) = message topError"
  by (simp add: analyzeErrorStack_def Let_def traverse_causeStack initial_accumulator_def
      chain_length)

theorem analyzeErrorStack_causeStack_witness:
  "causeStack (analyzeErrorStack None example_hi_helo) = [''hi'', ''helo'']
   \<and> length (causeStack (analyzeErrorStack None example_hi_helo)) = 2
   \<and> report_message (analyzeErrorStack None example_hi_helo) = ''hi''"
  using analyzeErrorStack_causeStack [of None example_hi_helo]
  by (simp add: example_hi_helo_def)

section \<open>Properties of the response serializer\<close>

lemma map_of_update_foldl:
  "map_of (foldl (\<lambda>acc (k, v). AList.update k v acc) obj src) = map_of obj ++ map_of (rev src)"
proof (induction src arbitrary: obj)
  case Nil
  then show ?case by simp
next
  case (Cons kv src)
  obtain k v where kv: "kv = (k, v)" by (cases kv)
  show ?case
    by (simp add: kv Cons.IH update_conv' map_add_upd_left fun_eq_iff map_add_def
        split: option.splits)
qed

lemma map_of_rev_ExtraField:
  "map_of (rev (map (\<lambda>(k, v). (k, ExtraField v)) extra)) k =
     map_option ExtraField (map_of (rev extra) k)"
  by (simp add: rev_map map_of_map)

text \<open>
  The response as a lookup function: the \<open>error\<close> entry of the literal, overridden by the
  spread fields.  A key that occurs more than once in an association list counts with its
  last entry, as repeated definition of a property would.
\<close>

lemma serializeErrorReport_lookup:
  "map_of (serializeErrorReport report options) =
     [''error'' \<mapsto> ErrorField
        \<lparr> ser_message = report_message report,
          ser_code = report_code report,
          ser_validationIssues = validationIssues report,
          ser_causeStack = (if report_sensitive report then None else Some (causeStack report)),
          ser_rootStackTrace =
            (if opt_includeStackTrace options = Some True then Some (rootStackTrace report)
             else None) \<rparr>]
     ++ map_of (rev (map (\<lambda>(k, v). (k, ExtraField v)) (report_extraResponseFields report)))"
  by (cases "opt_includeStackTrace options")
     (simp_all add: serializeErrorReport_def spread_def map_of_update_foldl serializeDefaults_def)

lemma serializeErrorReport_error_kept:
  assumes "''error'' \<notin> fst ` set (report_extraResponseFields report)"
  shows "map_of (serializeErrorReport report options) ''error'' =
           Some (ErrorField
             \<lparr> ser_message = report_message report,
               ser_code = report_code report,
               ser_validationIssues = validationIssues report,
               ser_causeStack =
                 (if report_sensitive report then None else Some (causeStack report)),
               ser_rootStackTrace =
                 (if opt_includeStackTrace options = Some True
                  then Some (rootStackTrace report) else None) \<rparr>)"
proof -
  have "map_of (rev (report_extraResponseFields report)) ''error'' = None"
    using assms by (simp add: map_of_eq_None_iff)
  then show ?thesis
    by (simp add: serializeErrorReport_lookup map_add_def map_of_rev_ExtraField)
qed

text \<open>
  C8, as stated, fails: the spread comes after the \<open>error\<close> entry, so a report whose extra
  response fields carry the key \<open>error\<close> loses the serialized report.
\<close>

theorem serializeErrorReport_error_overridden:
  "map_of (serializeErrorReport example_overriding_report no_options) ''error'' =
     Some (ExtraField JsonNull)"
  by (simp add: serializeErrorReport_lookup example_overriding_report_def)

text \<open>
  C8, amended.  For every report whose extra response fields do not carry the key \<open>error\<close>,
  and for all options: the response's \<open>error\<close> entry holds the report's message, code and
  validation issues; its \<open>causeStack\<close> is undefined exactly when the report is sensitive and
  the report's cause stack otherwise; its \<open>rootStackTrace\<close> is the report's exactly when
  \<open>includeStackTrace\<close> is given as true and undefined otherwise; the keys of the response are
  \<open>error\<close> and the keys of the extra response fields, each with its value.
\<close>

theorem serializeErrorReport_fields:
  assumes "''error'' \<notin> fst ` set (report_extraResponseFields report)"
  shows "map_of (serializeErrorReport report options) ''error'' =
           Some (ErrorField
             \<lparr> ser_message = report_message report,
               ser_code = report_code report,
               ser_validationIssues = validationIssues report,
               ser_causeStack =
                 (if report_sensitive report then None else Some (causeStack report)),
               ser_rootStackTrace =
                 (if opt_includeStackTrace options = Some True
                  then Some (rootStackTrace report) else None) \<rparr>)
         \<and> fst ` set (serializeErrorReport report options) =
             insert ''error'' (fst ` set (report_extraResponseFields report))
         \<and> (\<forall>k \<in> fst ` set (report_extraResponseFields report).
               map_of (serializeErrorReport report options) k =
                 map_option ExtraField (map_of (rev (report_extraResponseFields report)) k))"
proof -
  let ?extra = "report_extraResponseFields report"
  have dom: "dom (map_of (rev ?extra)) = fst ` set ?extra"
    by (simp add: dom_map_of_conv_image_fst)
  have "dom (map_of (serializeErrorReport report options)) = insert ''error'' (fst ` set ?extra)"
    unfolding serializeErrorReport_lookup
    by (simp add: dom_map_of_conv_image_fst image_image split_def)
  then have keys: "fst ` set (serializeErrorReport report options) =
      insert ''error'' (fst ` set ?extra)"
    by (simp add: dom_map_of_conv_image_fst)
  have vals: "\<forall>k \<in> fst ` set ?extra. map_of (serializeErrorReport report options) k =
                 map_option ExtraField (map_of (rev ?extra) k)"
  proof
    fix k assume "k \<in> fst ` set ?extra"
    then have "k \<in> dom (map_of (rev ?extra))" using dom by simp
    then obtain v where "map_of (rev ?extra) k = Some v" by blast
    then show "map_of (serializeErrorReport report options) k =
                 map_option ExtraField (map_of (rev ?extra) k)"
      by (simp add: serializeErrorReport_lookup map_add_def map_of_rev_ExtraField)
  qed
  from serializeErrorReport_error_kept [OF assms] keys vals show ?thesis by blast
qed

text \<open>A sensitive report, serialized with the default options.\<close>

theorem serializeErrorReport_fields_witness:
  "''error'' \<notin> fst ` set (report_extraResponseFields example_report)
   \<and> map_of (serializeErrorReport example_report no_options) ''error'' =
       Some (ErrorField
         \<lparr> ser_message = ''denied'', ser_code = ''E_DENIED'', ser_validationIssues = None,
           ser_causeStack = None, ser_rootStackTrace = None \<rparr>)
   \<and> fst ` set (serializeErrorReport example_report no_options) = {''error'', ''retryAfter''}
   \<and> map_of (serializeErrorReport example_report no_options) ''retryAfter'' =
       Some (ExtraField (JsonNumber (Finite 30)))"
proof -
  have h: "''error'' \<notin> fst ` set (report_extraResponseFields example_report)"
    by (simp add: example_report_def)
  show ?thesis
    using h serializeErrorReport_fields [OF h, of no_options]
    by (simp add: example_report_def no_options_def)
qed

text \<open>
  C9.  The extra response fields of an analyzed report never carry the key \<open>error\<close>, and so
  the \<open>error\<close> entry of the serialized response is the serialized report, although the extra
  fields are spread after it.
\<close>

theorem analyzeErrorStack_error_key_reserved:
  "''error'' \<notin> fst ` set (report_extraResponseFields (analyzeErrorStack cwd topError))
   \<and> (let report = analyzeErrorStack cwd topError in
       map_of (serializeErrorReport report options) ''error'' =
         Some (ErrorField
           \<lparr> ser_message = report_message report,
             ser_code = report_code report,
             ser_validationIssues = validationIssues report,
             ser_causeStack =
               (if report_sensitive report then None else Some (causeStack report)),
             ser_rootStackTrace =
               (if opt_includeStackTrace options = Some True
                then Some (rootStackTrace report) else None) \<rparr>))"
  using serializeErrorReport_error_kept [OF analyzeErrorStack_no_error_key]
  by (simp add: Let_def analyzeErrorStack_no_error_key)

text \<open>An error that tries to spread its own \<open>error\<close> field.\<close>

theorem analyzeErrorStack_error_key_reserved_witness:
  "(''error'', JsonString ''spoof'') \<in> set (the (extraResponseFields example_spoof))
   \<and> ''error'' \<notin> fst ` set (report_extraResponseFields (analyzeErrorStack None example_spoof))
   \<and> (\<exists>ser. map_of (serializeErrorReport (analyzeErrorStack None example_spoof) no_options)
               ''error'' = Some (ErrorField ser))"
  using analyzeErrorStack_error_key_reserved [of None example_spoof no_options]
  by (simp add: Let_def example_spoof_def)

section \<open>Properties of the shallow check\<close>

text \<open>
  C4.  The claim: \<open>shallowIsIBaseError\<close> returns false for a value whose
  \<open>extraErrorIdentifiers\<close> contains a reserved field name such as \<open>message\<close>, and true only if
  every present field satisfies its constraint.  The tests of the module expect the same of the
  field they call \<open>extraErrorFields\<close>, and false for an array as \<open>extraResponseFields\<close>.  The
  code: the check reads neither \<open>extraErrorIdentifiers\<close> nor \<open>extraErrorFields\<close>, and its test of
  \<open>extraResponseFields\<close> is \<^verbatim>\<open>typeof ... === "object"\<close>, which an array passes.  Each of the three
  example objects passes the check.
\<close>

theorem shallowIsIBaseError_accepts_reserved_keys:
  "has_prop example_heap_reserved_identifier
     (get_prop example_heap_reserved_identifier (JRef 0) ''extraErrorIdentifiers'') ''message''
   \<and> shallowIsIBaseError example_heap_reserved_identifier (JRef 0)
   \<and> has_prop example_heap_reserved_field
     (get_prop example_heap_reserved_field (JRef 0) ''extraErrorFields'') ''message''
   \<and> shallowIsIBaseError example_heap_reserved_field (JRef 0)
   \<and> isArray example_heap_array_fields
        (get_prop example_heap_array_fields (JRef 0) ''extraResponseFields'')
   \<and> shallowIsIBaseError example_heap_array_fields (JRef 0)"
  by code_simp

text \<open>The first of them on its own.\<close>

theorem shallowIsIBaseError_accepts_reserved_keys_witness:
  "shallowIsIBaseError example_heap_reserved_identifier (JRef 0)"
  using shallowIsIBaseError_accepts_reserved_keys by simp

section \<open>Properties of the normalizer\<close>

text \<open>
  C2.  The claim: the result of \<open>toIBaseError\<close> always passes \<open>isIBaseError\<close>, also when the
  \<open>messages\<close> array holds an object whose \<open>message\<close> is not a string.  The code: the
  callback of \<^verbatim>\<open>map\<close> returns every object that has a \<open>message\<close> property as it is, so the
  issue \<^verbatim>\<open>{ message: 5 }\<close> reaches the result, and the result fails the shallow check.
\<close>

theorem toIBaseError_result_not_conformant:
  "toIBaseError (Suc fuel) rt example_heap_bad_issue (JRef 0) =
     Some (Inr (JRef 3, example_heap_bad_issue_normalized))
   \<and> \<not> shallowIsIBaseError example_heap_bad_issue_normalized (JRef 3)
   \<and> isIBaseError (Suc fuel') example_heap_bad_issue_normalized (JRef 3) = Some False"
  by code_simp

text \<open>The same at the least recursion bound and with the example runtime.\<close>

theorem toIBaseError_result_not_conformant_witness:
  "toIBaseError 1 example_runtime example_heap_bad_issue (JRef 0) =
     Some (Inr (JRef 3, example_heap_bad_issue_normalized))
   \<and> \<not> shallowIsIBaseError example_heap_bad_issue_normalized (JRef 3)
   \<and> isIBaseError 1 example_heap_bad_issue_normalized (JRef 3) = Some False"
  using toIBaseError_result_not_conformant [of 0 example_runtime 0] by simp

text \<open>
  C3.  The claim: \<open>toIBaseError\<close> never throws.  The code: on a \<^verbatim>\<open>null\<close> entry of \<open>messages\<close> the
  callback evaluates \<^verbatim>\<open>"message" in null\<close>, a \<^verbatim>\<open>TypeError\<close>; and an exception of
  \<^verbatim>\<open>JSON.stringify\<close> is not caught.
\<close>

theorem toIBaseError_throws:
  "toIBaseError (Suc fuel) rt example_heap_null_issue (JRef 0) = Some (Inl TypeError)
   \<and> toIBaseError (Suc fuel) example_throwing_runtime example_heap_cyclic (JRef 0) =
       Some (Inl StringifyError)"
  by code_simp

theorem toIBaseError_throws_witness:
  "toIBaseError 1 example_runtime example_heap_null_issue (JRef 0) = Some (Inl TypeError)
   \<and> toIBaseError 1 example_throwing_runtime example_heap_cyclic (JRef 0) =
       Some (Inl StringifyError)"
  using toIBaseError_throws [of 0 example_runtime] by simp

subsection \<open>The frame of a call\<close>

lemma same_kind_refl [simp]: "same_kind x x"
  by (cases x) simp_all

lemma unchanged_at_refl [simp]: "unchanged_at x x"
  by (cases x) simp_all



lemma preserved_refl [simp]: "preserved n h h"
  by (simp add: preserved_def)















declare set_prop.simps [simp del] delete_prop.simps [simp del]















lemma find_prop_Obj:
  "a < length h \<Longrightarrow> h ! a = Obj own inh ext \<Longrightarrow>
   find_prop h (JRef a) k = (case map_of own k of Some p \<Rightarrow> Some p | None \<Rightarrow> map_of inh k)"
  by (simp add: find_prop_def split: option.splits)







subsection \<open>Termination without an exception\<close>



declare own_props.simps [simp del] inherited_props.simps [simp del]
  elements.simps [simp del] isArray.simps [simp del]




















subsection \<open>The recursion bound\<close>






subsection \<open>The reconstruction path and the caller's extra response fields\<close>




end
